theory Spec2Isabelle
  imports Main
begin

section \<open>The ledger store (database.py)\<close>

text \<open>
  The tables of \<^verbatim>\<open>Database.create_tables\<close> are lists of rows in rowid order.
  A point in time is the number of microseconds since 0001-01-01T00:00:00, the smallest
  value of Python's \<^verbatim>\<open>datetime\<close>; the store keeps the ISO text of such a value and the
  code parses it back, which is the identity on naive datetimes and keeps their order.
  The status columns only ever hold the literals the code writes.
\<close>

type_synonym datetime = int

datatype error = OverflowError | AttributeError | TelegramError

datatype sub_status = Active | Expired

datatype pay_status = Pending | Confirmed

datatype crypto_status = CPending | CConfirmed | CExpired

record user =
  u_user_id :: int
  username :: "string option"
  first_name :: "string option"
  last_name :: "string option"
  registration_date :: datetime
  balance :: int
  is_admin :: bool

record subscription =
  subscription_id :: int
  s_user_id :: int
  start_date :: datetime
  end_date :: datetime
  s_status :: sub_status

record payment =
  payment_id :: int
  p_user_id :: int
  p_amount :: int
  p_product_type :: string
  payment_method :: string
  p_status :: pay_status
  p_created_at :: datetime
  confirmed_at :: "datetime option"

record crypto_payment =
  cp_payment_id :: int
  cp_user_id :: int
  invoice_id :: string
  asset :: string
  cp_amount :: string
  cp_product_type :: string
  cp_status :: crypto_status
  cp_created_at :: datetime
  paid_at :: "datetime option"

record referral =
  referral_id :: int
  r_user_id :: int
  referrer_id :: int
  join_date :: datetime
  is_active :: bool

record database =
  users :: "user list"
  subscriptions :: "subscription list"
  payments :: "payment list"
  crypto_payments :: "crypto_payment list"
  referrals :: "referral list"

definition empty_db :: database where
  "empty_db = \<lparr>users = [], subscriptions = [], payments = [], crypto_payments = [],
     referrals = []\<rparr>"

text \<open>
  \<^verbatim>\<open>cursor.lastrowid\<close> of an insert into an AUTOINCREMENT table from which nothing is
  ever deleted: one more than the largest id in the table, 1 in an empty table.
\<close>

definition lastrowid :: "int list \<Rightarrow> int" where
  "lastrowid ids = fold max ids 0 + 1"

subsection \<open>Dates\<close>

definition us_per_day :: int where
  "us_per_day = 86400000000"

text \<open>\<^verbatim>\<open>datetime.max\<close> is 9999-12-31T23:59:59.999999, the last microsecond of day 3652059.\<close>

definition max_datetime :: int where
  "max_datetime = 3652059 * us_per_day"

text \<open>
  \<^verbatim>\<open>t + datetime.timedelta(days=days)\<close>: the timedelta constructor raises OverflowError
  beyond 999999999 days, the addition raises it when the result leaves the years 1 to 9999.
\<close>

definition add_days :: "datetime \<Rightarrow> int \<Rightarrow> error + datetime" where
  "add_days t days =
     (if 999999999 < \<bar>days\<bar> then Inl OverflowError
      else let r = t + days * us_per_day
           in if 0 \<le> r \<and> r < max_datetime then Inr r else Inl OverflowError)"

subsection \<open>Subscriptions\<close>

text \<open>
  \<^verbatim>\<open>SELECT ... WHERE user_id = ? AND status = 'active' ORDER BY end_date DESC LIMIT 1\<close>.
  Among rows with the same end date the earliest row is taken.
\<close>

fun latest_active :: "subscription list \<Rightarrow> int \<Rightarrow> subscription option" where
  "latest_active [] uid = None"
| "latest_active (s # ss) uid =
     (if s_user_id s = uid \<and> s_status s = Active
      then (case latest_active ss uid of
              None \<Rightarrow> Some s
            | Some r \<Rightarrow> if end_date s < end_date r then Some r else Some s)
      else latest_active ss uid)"

text \<open>\<^verbatim>\<open>UPDATE subscriptions SET end_date = ? WHERE subscription_id = ?\<close>\<close>

definition set_end_date :: "int \<Rightarrow> datetime \<Rightarrow> subscription list \<Rightarrow> subscription list" where
  "set_end_date sid e subs =
     map (\<lambda>r. if subscription_id r = sid then r\<lparr>end_date := e\<rparr> else r) subs"

text \<open>
  \<^verbatim>\<open>add_subscription(user_id, days)\<close>. The function reads the clock twice: \<open>now1\<close> for
  \<^verbatim>\<open>end_date = now() + timedelta(days)\<close> before the query, \<open>now2\<close> for the comparison
  \<^verbatim>\<open>current_end < now()\<close>; \<open>ts\<close> is the store's CURRENT_TIMESTAMP for the default of
  \<^verbatim>\<open>start_date\<close>. An exception leaves the connection uncommitted, so the store is unchanged.
\<close>

definition add_subscription ::
  "database \<Rightarrow> datetime \<Rightarrow> datetime \<Rightarrow> datetime \<Rightarrow> int \<Rightarrow> int \<Rightarrow> error + (int \<times> database)" where
  "add_subscription db now1 now2 ts uid days =
     (case add_days now1 days of
        Inl e \<Rightarrow> Inl e
      | Inr end_dt \<Rightarrow>
          (case latest_active (subscriptions db) uid of
             Some s \<Rightarrow>
               (case (if end_date s < now2 then Inr end_dt else add_days (end_date s) days) of
                  Inl e \<Rightarrow> Inl e
                | Inr new_end_date \<Rightarrow>
                    Inr (subscription_id s,
                         db\<lparr>subscriptions :=
                              set_end_date (subscription_id s) new_end_date (subscriptions db)\<rparr>))
           | None \<Rightarrow>
               (let sid = lastrowid (map subscription_id (subscriptions db))
                in Inr (sid,
                        db\<lparr>subscriptions := subscriptions db @
                             [\<lparr>subscription_id = sid, s_user_id = uid, start_date = ts,
                               end_date = end_dt, s_status = Active\<rparr>]\<rparr>))))"

text \<open>\<^verbatim>\<open>UPDATE subscriptions SET status = 'expired' WHERE subscription_id = ?\<close>\<close>

definition deactivate_subscription :: "database \<Rightarrow> int \<Rightarrow> database" where
  "deactivate_subscription db sid =
     db\<lparr>subscriptions :=
          map (\<lambda>r. if subscription_id r = sid then r\<lparr>s_status := Expired\<rparr> else r)
            (subscriptions db)\<rparr>"

text \<open>
  What the schema and the code keep true of the subscriptions table: the primary key is
  unique, and a user has at most one active row, since \<open>add_subscription\<close> is the only
  code that inserts and it inserts only when the user has no active row.
\<close>

definition subs_wf :: "subscription list \<Rightarrow> bool" where
  "subs_wf subs \<longleftrightarrow>
     distinct (map subscription_id subs) \<and>
     distinct (map s_user_id (filter (\<lambda>r. s_status r = Active) subs))"

subsection \<open>Users\<close>

text \<open>\<^verbatim>\<open>get_user\<close>: the row with this id, if there is one.\<close>

definition get_user :: "database \<Rightarrow> int \<Rightarrow> user option" where
  "get_user db uid = find (\<lambda>u. u_user_id u = uid) (users db)"

text \<open>
  \<^verbatim>\<open>add_user\<close>: an existing row gets the three name fields, otherwise a row is inserted
  with the defaults of the schema (\<open>ts\<close> is CURRENT_TIMESTAMP).
\<close>

definition add_user ::
  "database \<Rightarrow> datetime \<Rightarrow> int \<Rightarrow> string option \<Rightarrow> string option \<Rightarrow> string option \<Rightarrow> database" where
  "add_user db ts uid uname fname lname =
     (case get_user db uid of
        Some _ \<Rightarrow>
          db\<lparr>users := map (\<lambda>u. if u_user_id u = uid
                               then u\<lparr>username := uname, first_name := fname, last_name := lname\<rparr>
                               else u) (users db)\<rparr>
      | None \<Rightarrow>
          db\<lparr>users := users db @
               [\<lparr>u_user_id = uid, username = uname, first_name = fname, last_name = lname,
                 registration_date = ts, balance = 0, is_admin = False\<rparr>]\<rparr>)"

text \<open>
  \<^verbatim>\<open>update_user_balance\<close>: \<^verbatim>\<open>UPDATE users SET balance = balance + ? WHERE user_id = ?\<close>,
  then the new balance is read back, 0 when there is no such user.
\<close>

definition update_user_balance :: "database \<Rightarrow> int \<Rightarrow> int \<Rightarrow> int \<times> database" where
  "update_user_balance db uid amount =
     (let db' = db\<lparr>users := map (\<lambda>u. if u_user_id u = uid
                                       then u\<lparr>balance := balance u + amount\<rparr> else u) (users db)\<rparr>
      in (case get_user db' uid of Some u \<Rightarrow> balance u | None \<Rightarrow> 0, db'))"

subsection \<open>Expired subscriptions\<close>

text \<open>
  \<^verbatim>\<open>get_expired_subscriptions\<close>: the join of subscriptions with users, restricted to
  \<^verbatim>\<open>s.status = 'active' AND datetime(s.end_date) < datetime('now')\<close>. SQLite's
  \<^verbatim>\<open>datetime()\<close> drops the fraction of a second; \<open>sql_now\<close> is the store's own clock.
\<close>

definition get_expired_subscriptions :: "database \<Rightarrow> datetime \<Rightarrow> subscription list" where
  "get_expired_subscriptions db sql_now =
     concat (map (\<lambda>s. map (\<lambda>u. s)
                         (filter (\<lambda>u. s_user_id s = u_user_id u \<and> s_status s = Active \<and>
                                        end_date s div 1000000 < sql_now div 1000000) (users db)))
                 (subscriptions db))"

subsection \<open>Payments\<close>


text \<open>\<^verbatim>\<open>UPDATE payments SET status = 'confirmed', confirmed_at = ? WHERE payment_id = ?\<close>\<close>

definition confirm_payment :: "database \<Rightarrow> datetime \<Rightarrow> int \<Rightarrow> database" where
  "confirm_payment db now pid =
     db\<lparr>payments := map (\<lambda>p. if payment_id p = pid
                              then p\<lparr>p_status := Confirmed, confirmed_at := Some now\<rparr> else p)
                        (payments db)\<rparr>"

definition get_payment :: "database \<Rightarrow> int \<Rightarrow> payment option" where
  "get_payment db pid = find (\<lambda>p. payment_id p = pid) (payments db)"

subsection \<open>Crypto payments\<close>


text \<open>\<^verbatim>\<open>UPDATE crypto_payments SET status = 'confirmed', paid_at = ? WHERE invoice_id = ?\<close>\<close>

definition confirm_crypto_payment :: "database \<Rightarrow> datetime \<Rightarrow> string \<Rightarrow> database" where
  "confirm_crypto_payment db now iid =
     db\<lparr>crypto_payments := map (\<lambda>p. if invoice_id p = iid
                                     then p\<lparr>cp_status := CConfirmed, paid_at := Some now\<rparr> else p)
                               (crypto_payments db)\<rparr>"

text \<open>\<^verbatim>\<open>UPDATE crypto_payments SET status = 'expired' WHERE invoice_id = ?\<close>\<close>

definition mark_crypto_payment_expired :: "database \<Rightarrow> string \<Rightarrow> database" where
  "mark_crypto_payment_expired db iid =
     db\<lparr>crypto_payments := map (\<lambda>p. if invoice_id p = iid then p\<lparr>cp_status := CExpired\<rparr> else p)
                               (crypto_payments db)\<rparr>"


subsection \<open>Referrals\<close>

text \<open>
  \<^verbatim>\<open>add_referral(user_id, referrer_id)\<close>: 0 and no insert when the invitee already has a
  row, whatever its \<^verbatim>\<open>is_active\<close>; otherwise the id of the inserted row.
\<close>

definition add_referral :: "database \<Rightarrow> datetime \<Rightarrow> int \<Rightarrow> int \<Rightarrow> int \<times> database" where
  "add_referral db ts uid rfr =
     (case find (\<lambda>r. r_user_id r = uid) (referrals db) of
        Some _ \<Rightarrow> (0, db)
      | None \<Rightarrow>
          (let rid = lastrowid (map referral_id (referrals db))
           in (rid, db\<lparr>referrals := referrals db @
                        [\<lparr>referral_id = rid, r_user_id = uid, referrer_id = rfr, join_date = ts,
                          is_active = True\<rparr>]\<rparr>)))"


section \<open>Configuration and product table (config.py, utils.py)\<close>

record config =
  admin_ids :: "int list"
  group_id :: int
  club_price :: int
  vietnam_tour_price :: int
  consultation_price :: int
  points_per_referral :: int
  free_days :: int

record payment_info =
  pi_amount :: int
  pi_days :: int

text \<open>\<^verbatim>\<open>get_payment_description\<close>, without the two display strings.\<close>

definition get_payment_description :: "string \<Rightarrow> config \<Rightarrow> payment_info" where
  "get_payment_description product cfg =
     (if product = ''club'' then \<lparr>pi_amount = club_price cfg, pi_days = 30\<rparr>
      else if product = ''vietnam'' then \<lparr>pi_amount = vietnam_tour_price cfg, pi_days = 0\<rparr>
      else if product = ''consultation'' then \<lparr>pi_amount = consultation_price cfg, pi_days = 0\<rparr>
      else \<lparr>pi_amount = 0, pi_days = 0\<rparr>)"

section \<open>The outside world\<close>

text \<open>
  The messaging platform, the invoice service and the clocks are external. Their state
  is a value of an arbitrary type \<open>'w\<close>; every call takes it and returns the next one, so
  an answer may depend on everything that happened before. \<open>bot_send_message\<close> and
  \<open>bot_ban_chat_member\<close> return \<open>False\<close> where the call raises. \<open>crypto_check_invoice\<close>
  returns \<open>None\<close> where \<^verbatim>\<open>CryptoPayAPI.check_invoice\<close> raises and otherwise
  \<^verbatim>\<open>invoice.get('status')\<close>. \<open>clock_now\<close> is \<^verbatim>\<open>datetime.now()\<close>, \<open>clock_sql\<close> the
  store's \<^verbatim>\<open>CURRENT_TIMESTAMP\<close> or \<^verbatim>\<open>datetime('now')\<close>.
\<close>

datatype msg =
    SubscriptionEndText int
  | Milestone3 | Milestone5 | Milestone10
  | CryptoClubConfirmed int | CryptoProductConfirmed string | CryptoAdminNotice int string
  | CryptoExpiredNotice
  | StarsError | StarsClubThanks | StarsProductThanks | StarsAdminNotice int string
  | NoRights | PaymentNotFound int | AlreadyConfirmed int
  | ClubConfirmed | ProductConfirmed string | AdminReport int
  | ReferralCongrats | ReferralWelcome | Greeting

datatype event = Send int msg bool | Ban int int bool

record 'w api =
  clock_now :: "'w \<Rightarrow> datetime \<times> 'w"
  clock_sql :: "'w \<Rightarrow> datetime \<times> 'w"
  bot_send_message :: "int \<Rightarrow> msg \<Rightarrow> 'w \<Rightarrow> bool \<times> 'w"
  bot_ban_chat_member :: "int \<Rightarrow> int \<Rightarrow> 'w \<Rightarrow> bool \<times> 'w"
  crypto_check_invoice :: "string \<Rightarrow> 'w \<Rightarrow> string option option \<times> 'w"

text \<open>
  The state a handler or a job works on: the store, the outside world, and the list of
  calls made to the platform so far, each with its outcome.
\<close>

record 'w world =
  store :: database
  ext :: 'w
  trace :: "event list"

datatype outcome = Returned | Raised error

definition send :: "'w api \<Rightarrow> 'w world \<Rightarrow> int \<Rightarrow> msg \<Rightarrow> bool \<times> 'w world" where
  "send api w to m =
     (case bot_send_message api to m (ext w) of
        (ok, e) \<Rightarrow> (ok, w\<lparr>ext := e, trace := trace w @ [Send to m ok]\<rparr>))"

text \<open>
  The three clock readings of one \<open>add_subscription\<close> call, taken in the order of the
  code.
\<close>

definition read_clocks :: "'w api \<Rightarrow> 'w \<Rightarrow> (datetime \<times> datetime \<times> datetime) \<times> 'w" where
  "read_clocks api e =
     (case clock_now api e of (now1, e1) \<Rightarrow>
      case clock_now api e1 of (now2, e2) \<Rightarrow>
      case clock_sql api e2 of (ts, e3) \<Rightarrow> ((now1, now2, ts), e3))"

text \<open>\<^verbatim>\<open>await db.add_subscription(user_id, days)\<close> as a handler runs it.\<close>

definition db_add_subscription ::
  "'w api \<Rightarrow> 'w world \<Rightarrow> int \<Rightarrow> int \<Rightarrow> (error + int) \<times> 'w world" where
  "db_add_subscription api w uid days =
     (case read_clocks api (ext w) of
        ((now1, now2, ts), e) \<Rightarrow>
          (case add_subscription (store w) now1 now2 ts uid days of
             Inl err \<Rightarrow> (Inl err, w\<lparr>ext := e\<rparr>)
           | Inr (sid, db') \<Rightarrow> (Inr sid, w\<lparr>store := db', ext := e\<rparr>)))"

section \<open>Milestone bonuses (handlers/start.py)\<close>

text \<open>
  \<^verbatim>\<open>check_referrer_bonuses\<close>. Neither the grant nor the messages are inside a
  \<^verbatim>\<open>try\<close>, so a failure leaves the function by an exception.
\<close>

definition notify :: "'w api \<Rightarrow> 'w world \<Rightarrow> int \<Rightarrow> msg \<Rightarrow> outcome \<times> 'w world" where
  "notify api w to m =
     (case send api w to m of (ok, w') \<Rightarrow> (if ok then Returned else Raised TelegramError, w'))"


section \<open>Scheduled jobs (scheduled_tasks.py, utils.py)\<close>

text \<open>
  \<^verbatim>\<open>kick_user_from_group\<close> catches every exception of the ban, and of computing its
  \<^verbatim>\<open>until_date\<close>, and returns \<^verbatim>\<open>False\<close>.
\<close>

definition kick_user_from_group :: "'w api \<Rightarrow> config \<Rightarrow> 'w world \<Rightarrow> int \<Rightarrow> bool \<times> 'w world" where
  "kick_user_from_group api cfg w uid =
     (case bot_ban_chat_member api (group_id cfg) uid (ext w) of
        (ok, e) \<Rightarrow> (ok, w\<lparr>ext := e, trace := trace w @ [Ban (group_id cfg) uid ok]\<rparr>))"

text \<open>
  The body of the loop of \<^verbatim>\<open>_check_expired_subscriptions\<close> for one row: deactivate,
  kick, notify. A failing notification is caught by the \<^verbatim>\<open>except\<close> of the row and logged.
\<close>

definition expire_subscription :: "'w api \<Rightarrow> config \<Rightarrow> subscription \<Rightarrow> 'w world \<Rightarrow> 'w world" where
  "expire_subscription api cfg sub w =
     (let w1 = w\<lparr>store := deactivate_subscription (store w) (subscription_id sub)\<rparr>
      in case kick_user_from_group api cfg w1 (s_user_id sub) of
           (kick_result, w2) \<Rightarrow> snd (send api w2 (s_user_id sub) (SubscriptionEndText 0)))"

definition check_expired_subscriptions :: "'w api \<Rightarrow> config \<Rightarrow> 'w world \<Rightarrow> 'w world" where
  "check_expired_subscriptions api cfg w =
     (case clock_sql api (ext w) of
        (t, e) \<Rightarrow> fold (expire_subscription api cfg)
                    (get_expired_subscriptions (store w) t) (w\<lparr>ext := e\<rparr>))"

text \<open>
  The notification of the admins after a paid invoice. \<^verbatim>\<open>get_user_name\<close> reads the
  attribute \<^verbatim>\<open>first_name\<close> of its argument; here it is given the dict of the user row,
  which has no attributes, so for a user with a row the \<^verbatim>\<open>try\<close> of this admin ends in
  its \<^verbatim>\<open>except\<close> before anything is sent.
\<close>

definition notify_admin :: "'w api \<Rightarrow> crypto_payment \<Rightarrow> int \<Rightarrow> 'w world \<Rightarrow> 'w world" where
  "notify_admin api payment admin_id w =
     (case get_user (store w) (cp_user_id payment) of
        Some _ \<Rightarrow> w
      | None \<Rightarrow> snd (send api w admin_id
                        (CryptoAdminNotice (cp_user_id payment) (cp_product_type payment))))"

text \<open>
  The body of the loop of \<^verbatim>\<open>_check_pending_crypto_payments\<close> for one payment. Every
  exception inside it is caught by the \<^verbatim>\<open>except\<close> of the payment and logged.
\<close>

definition check_payment :: "'w api \<Rightarrow> config \<Rightarrow> crypto_payment \<Rightarrow> 'w world \<Rightarrow> 'w world" where
  "check_payment api cfg payment w =
     (let iid = invoice_id payment; uid = cp_user_id payment;
          product_type = cp_product_type payment
      in case crypto_check_invoice api iid (ext w) of
           (None, e) \<Rightarrow> w\<lparr>ext := e\<rparr>
         | (Some status, e) \<Rightarrow>
             if status = Some ''paid'' then
               (case clock_now api e of
                  (t, e1) \<Rightarrow>
                    (let w1 = w\<lparr>store := confirm_crypto_payment (store w) t iid, ext := e1\<rparr>
                     in if product_type = ''club'' then
                          (case db_add_subscription api w1 uid
                                  (pi_days (get_payment_description product_type cfg)) of
                             (Inl err, w2) \<Rightarrow> w2
                           | (Inr _, w2) \<Rightarrow>
                               fold (notify_admin api payment) (admin_ids cfg)
                                 (snd (send api w2 uid
                                    (CryptoClubConfirmed
                                       (pi_days (get_payment_description product_type cfg))))))
                        else fold (notify_admin api payment) (admin_ids cfg)
                               (snd (send api w1 uid (CryptoProductConfirmed product_type)))))
             else if status = Some ''expired'' then
               snd (send api (w\<lparr>store := mark_crypto_payment_expired (store w) iid, ext := e\<rparr>)
                      uid CryptoExpiredNotice)
             else w\<lparr>ext := e\<rparr>)"


section \<open>Confirmation of manual and platform payments (handlers/admin.py, handlers/club.py)\<close>

text \<open>
  \<^verbatim>\<open>cmd_confirm_payment\<close> of handlers/admin.py, from the point where the command's
  argument has been parsed to \<open>pid\<close>; \<open>from_id\<close> is the sender and the chat. As in the
  poll, \<^verbatim>\<open>get_user_name\<close> is given the dict of the customer's row, which raises
  AttributeError outside any \<^verbatim>\<open>try\<close> when the customer has a row.
\<close>

definition cmd_confirm_payment ::
  "'w api \<Rightarrow> config \<Rightarrow> 'w world \<Rightarrow> int \<Rightarrow> int \<Rightarrow> outcome \<times> 'w world" where
  "cmd_confirm_payment api cfg w from_id pid =
     (if from_id \<notin> set (admin_ids cfg) then notify api w from_id NoRights
      else case get_payment (store w) pid of
        None \<Rightarrow> notify api w from_id (PaymentNotFound pid)
      | Some payment \<Rightarrow>
          if p_status payment = Confirmed then notify api w from_id (AlreadyConfirmed pid)
          else
            (case clock_now api (ext w) of
               (t, e) \<Rightarrow>
                 (let w1 = w\<lparr>store := confirm_payment (store w) t pid, ext := e\<rparr>;
                      customer_id = p_user_id payment;
                      product_type = p_product_type payment
                  in case get_user (store w1) customer_id of
                       Some _ \<Rightarrow> (Raised AttributeError, w1)
                     | None \<Rightarrow>
                         if product_type = ''club'' then
                           (case db_add_subscription api w1 customer_id
                                   (pi_days (get_payment_description product_type cfg)) of
                              (Inl err, w2) \<Rightarrow> (Raised err, w2)
                            | (Inr _, w2) \<Rightarrow>
                                notify api (snd (send api w2 customer_id ClubConfirmed))
                                  from_id (AdminReport pid))
                         else notify api (snd (send api w1 customer_id (ProductConfirmed product_type)))
                                from_id (AdminReport pid))))"

text \<open>
  \<^verbatim>\<open>cmd_confirm_payment\<close> of handlers/club.py, whose router is registered before the
  admin router: the same steps without the lookup of the customer's name.
\<close>

definition club_cmd_confirm_payment ::
  "'w api \<Rightarrow> config \<Rightarrow> 'w world \<Rightarrow> int \<Rightarrow> int \<Rightarrow> outcome \<times> 'w world" where
  "club_cmd_confirm_payment api cfg w from_id pid =
     (if from_id \<notin> set (admin_ids cfg) then notify api w from_id NoRights
      else case get_payment (store w) pid of
        None \<Rightarrow> notify api w from_id (PaymentNotFound pid)
      | Some payment \<Rightarrow>
          if p_status payment = Confirmed then notify api w from_id (AlreadyConfirmed pid)
          else
            (case clock_now api (ext w) of
               (t, e) \<Rightarrow>
                 (let w1 = w\<lparr>store := confirm_payment (store w) t pid, ext := e\<rparr>;
                      customer_id = p_user_id payment;
                      product_type = p_product_type payment
                  in if product_type = ''club'' then
                       (case db_add_subscription api w1 customer_id
                               (pi_days (get_payment_description product_type cfg)) of
                          (Inl err, w2) \<Rightarrow> (Raised err, w2)
                        | (Inr _, w2) \<Rightarrow>
                            notify api (snd (send api w2 customer_id ClubConfirmed))
                              from_id (AdminReport pid))
                     else notify api (snd (send api w1 customer_id (ProductConfirmed product_type)))
                            from_id (AdminReport pid))))"

text \<open>
  \<^verbatim>\<open>successful_payment_handler\<close> of handlers/club.py for a payload \<^verbatim>\<open>payment_<pid>\<close>;
  \<open>chat\<close> is the chat of the message. The status of the payment is not read. The answers to the user are outside any \<^verbatim>\<open>try\<close>; the messages to the
  admins are inside one.
\<close>

definition successful_payment_handler ::
  "'w api \<Rightarrow> config \<Rightarrow> 'w world \<Rightarrow> int \<Rightarrow> int \<Rightarrow> outcome \<times> 'w world" where
  "successful_payment_handler api cfg w chat pid =
     (case get_payment (store w) pid of
        None \<Rightarrow> notify api w chat StarsError
      | Some payment \<Rightarrow>
          (case clock_now api (ext w) of
             (t, e) \<Rightarrow>
               (let w1 = w\<lparr>store := confirm_payment (store w) t pid, ext := e\<rparr>;
                    user_id = p_user_id payment;
                    product_type = p_product_type payment
                in if product_type = ''club'' then
                     (case db_add_subscription api w1 user_id
                             (pi_days (get_payment_description product_type cfg)) of
                        (Inl err, w2) \<Rightarrow> (Raised err, w2)
                      | (Inr _, w2) \<Rightarrow> notify api w2 chat StarsClubThanks)
                   else
                     (case notify api w1 chat StarsProductThanks of
                        (Raised err, w2) \<Rightarrow> (Raised err, w2)
                      | (Returned, w2) \<Rightarrow>
                          (Returned,
                           fold (\<lambda>admin_id w'. snd (send api w' admin_id
                                                     (StarsAdminNotice user_id product_type)))
                             (admin_ids cfg) w2)))))"

text \<open>Every row with this id is expired.\<close>

definition expired_row :: "database \<Rightarrow> int \<Rightarrow> bool" where
  "expired_row db sid \<longleftrightarrow>
     (\<forall>r \<in> set (subscriptions db). subscription_id r = sid \<longrightarrow> s_status r = Expired)"

section \<open>Referral links (utils.py)\<close>

text \<open>
  A Python \<^verbatim>\<open>str\<close> is a list of characters and a \<^verbatim>\<open>bytes\<close> value a list of 8-bit
  characters; both are \<^typ>\<open>string\<close> here, with code points up to 255 in a \<^verbatim>\<open>str\<close>.
\<close>

subsection \<open>Decimal text\<close>

text \<open>\<^verbatim>\<open>str(n)\<close> for an integer (Python's limit on the number of digits is a runtime setting
  and is left out).\<close>

function digits10 :: "nat \<Rightarrow> string" where
  "digits10 n = (if n < 10 then [char_of (48 + n)]
                 else digits10 (n div 10) @ [char_of (48 + n mod 10)])"
  by pat_completeness auto
termination
  by (relation "measure id") auto

definition str_int :: "int \<Rightarrow> string" where
  "str_int n = (if n < 0 then CHR ''-'' # digits10 (nat (- n)) else digits10 (nat n))"

text \<open>
  \<^verbatim>\<open>int(s)\<close> for ASCII text, \<open>None\<close> for ValueError: blanks around, one optional sign,
  then decimal digits, where single underscores may stand between digits.
\<close>

definition is_blank :: "char \<Rightarrow> bool" where
  "is_blank c \<longleftrightarrow> (of_char c :: nat) \<in> {9, 10, 11, 12, 13, 32}"

definition is_digit :: "char \<Rightarrow> bool" where
  "is_digit c \<longleftrightarrow> 48 \<le> (of_char c :: nat) \<and> (of_char c :: nat) \<le> 57"

fun digits_val :: "string \<Rightarrow> nat \<Rightarrow> nat option" where
  "digits_val [] acc = Some acc"
| "digits_val (c # cs) acc =
     (if is_digit c then digits_val cs (acc * 10 + (of_char c - 48))
      else if c = CHR ''_'' then
        (case cs of [] \<Rightarrow> None | d # ds \<Rightarrow> if is_digit d then digits_val cs acc else None)
      else None)"

definition unsigned_int :: "string \<Rightarrow> nat option" where
  "unsigned_int s = (case s of [] \<Rightarrow> None | c # cs \<Rightarrow> if is_digit c then digits_val s 0 else None)"

definition py_int :: "string \<Rightarrow> int option" where
  "py_int s =
     (let t = rev (dropWhile is_blank (rev (dropWhile is_blank s)))
      in case t of
           [] \<Rightarrow> None
         | c # cs \<Rightarrow>
             if c = CHR ''-'' then map_option (\<lambda>v. - int v) (unsigned_int cs)
             else if c = CHR ''+'' then map_option int (unsigned_int cs)
             else map_option int (unsigned_int t))"

subsection \<open>Base64\<close>

text \<open>The two tables of \<^verbatim>\<open>binascii\<close>: the character of a 6-bit value and back.\<close>

definition b64_char :: "nat \<Rightarrow> char" where
  "b64_char v =
     (if v < 26 then char_of (65 + v)
      else if v < 52 then char_of (71 + v)
      else if v < 62 then char_of (v - 4)
      else if v = 62 then CHR ''+'' else CHR ''/'')"

definition b64_value :: "char \<Rightarrow> nat option" where
  "b64_value c =
     (let n = (of_char c :: nat)
      in if 65 \<le> n \<and> n \<le> 90 then Some (n - 65)
         else if 97 \<le> n \<and> n \<le> 122 then Some (n - 71)
         else if 48 \<le> n \<and> n \<le> 57 then Some (n + 4)
         else if c = CHR ''+'' then Some 62
         else if c = CHR ''/'' then Some 63
         else None)"

text \<open>\<^verbatim>\<open>base64.b64encode\<close>: three bytes give four characters, a rest of one or two bytes
  is padded with \<^verbatim>\<open>=\<close>.\<close>

fun b64encode :: "string \<Rightarrow> string" where
  "b64encode (a # b # c # rest) =
     [b64_char (of_char a div 4),
      b64_char ((of_char a mod 4) * 16 + of_char b div 16),
      b64_char ((of_char b mod 16) * 4 + of_char c div 64),
      b64_char (of_char c mod 64)] @ b64encode rest"
| "b64encode [a, b] =
     [b64_char (of_char a div 4),
      b64_char ((of_char a mod 4) * 16 + of_char b div 16),
      b64_char ((of_char b mod 16) * 4), CHR ''='']"
| "b64encode [a] =
     [b64_char (of_char a div 4), b64_char ((of_char a mod 4) * 16), CHR ''='', CHR ''='']"
| "b64encode [] = []"

text \<open>The two translations of the URL-safe alphabet.\<close>

definition to_urlsafe :: "char \<Rightarrow> char" where
  "to_urlsafe c = (if c = CHR ''+'' then CHR ''-'' else if c = CHR ''/'' then CHR ''_'' else c)"

definition from_urlsafe :: "char \<Rightarrow> char" where
  "from_urlsafe c = (if c = CHR ''-'' then CHR ''+'' else if c = CHR ''_'' then CHR ''/'' else c)"

definition urlsafe_b64encode :: "string \<Rightarrow> string" where
  "urlsafe_b64encode s = map to_urlsafe (b64encode s)"

text \<open>
  \<^verbatim>\<open>binascii.a2b_base64\<close> without strict mode, the decoder behind \<^verbatim>\<open>base64.b64decode\<close>:
  the position in the current group of four, the bits left over, the count of padding
  characters seen, and the output so far. Characters outside the alphabet are skipped;
  padding ends the input once it completes a group; an incomplete group at the end is
  an error (\<open>None\<close>).
\<close>

fun a2b_base64 :: "string \<Rightarrow> nat \<Rightarrow> nat \<Rightarrow> nat \<Rightarrow> string \<Rightarrow> string option" where
  "a2b_base64 [] quad_pos leftchar pads out = (if quad_pos \<noteq> 0 then None else Some out)"
| "a2b_base64 (c # cs) quad_pos leftchar pads out =
     (if c = CHR ''='' then
        (if 2 \<le> quad_pos then
           (if 4 \<le> quad_pos + (pads + 1) then Some out
            else a2b_base64 cs quad_pos leftchar (pads + 1) out)
         else a2b_base64 cs quad_pos leftchar pads out)
      else case b64_value c of
        None \<Rightarrow> a2b_base64 cs quad_pos leftchar pads out
      | Some v \<Rightarrow>
          if quad_pos = 0 then a2b_base64 cs 1 v 0 out
          else if quad_pos = 1 then
            a2b_base64 cs 2 (v mod 16) 0 (out @ [char_of (leftchar * 4 + v div 16)])
          else if quad_pos = 2 then
            a2b_base64 cs 3 (v mod 4) 0 (out @ [char_of (leftchar * 16 + v div 4)])
          else a2b_base64 cs 0 0 0 (out @ [char_of (leftchar * 64 + v)]))"

definition urlsafe_b64decode :: "string \<Rightarrow> string option" where
  "urlsafe_b64decode s = a2b_base64 (map from_urlsafe s) 0 0 0 []"

text \<open>\<^verbatim>\<open>str.encode()\<close>: UTF-8, one byte below 128 and two bytes from 128 to 255.\<close>

definition utf8_encode :: "string \<Rightarrow> string" where
  "utf8_encode s =
     concat (map (\<lambda>c. if (of_char c :: nat) < 128 then [c]
                       else [char_of (192 + (of_char c :: nat) div 64),
                             char_of (128 + (of_char c :: nat) mod 64)]) s)"

text \<open>\<^verbatim>\<open>s.rstrip('=')\<close>\<close>

definition rstrip_pad :: "string \<Rightarrow> string" where
  "rstrip_pad s = rev (dropWhile (\<lambda>c. c = CHR ''='') (rev s))"

text \<open>The part of a Base64 text before its padding.\<close>

fun b64_body :: "string \<Rightarrow> string" where
  "b64_body (a # b # c # rest) =
     [b64_char (of_char a div 4),
      b64_char ((of_char a mod 4) * 16 + of_char b div 16),
      b64_char ((of_char b mod 16) * 4 + of_char c div 64),
      b64_char (of_char c mod 64)] @ b64_body rest"
| "b64_body [a, b] =
     [b64_char (of_char a div 4),
      b64_char ((of_char a mod 4) * 16 + of_char b div 16),
      b64_char ((of_char b mod 16) * 4)]"
| "b64_body [a] = [b64_char (of_char a div 4), b64_char ((of_char a mod 4) * 16)]"
| "b64_body [] = []"

subsection \<open>The link and its parameter\<close>

text \<open>
  \<^verbatim>\<open>generate_ref_link\<close>. The text of a number is ASCII, so its \<^verbatim>\<open>encode()\<close> and the
  \<^verbatim>\<open>decode()\<close> of the Base64 text change nothing.
\<close>

definition encoded_id_of :: "int \<Rightarrow> string" where
  "encoded_id_of user_id = rstrip_pad (urlsafe_b64encode (utf8_encode (str_int user_id)))"

definition generate_ref_link :: "string \<Rightarrow> int \<Rightarrow> string" where
  "generate_ref_link bot_username user_id =
     ''https://t.me/'' @ bot_username @ ''?start=ref_'' @ encoded_id_of user_id"

text \<open>
  \<^verbatim>\<open>extract_referrer_id\<close>, \<open>None\<close> for \<^verbatim>\<open>None\<close>. \<open>decode_int\<close> stands for
  \<^verbatim>\<open>int(decoded.decode())\<close> on bytes that are not all ASCII, where the result depends on
  UTF-8 validity and on Unicode's digit characters; on ASCII bytes it is \<open>py_int\<close>.
\<close>

definition extract_referrer_id :: "(string \<Rightarrow> int option) \<Rightarrow> string \<Rightarrow> int option" where
  "extract_referrer_id decode_int start_param =
     (if start_param = [] \<or> take 4 start_param \<noteq> ''ref_'' then None
      else
        (let encoded_id = drop 4 start_param;
             padding = replicate (4 - length encoded_id mod 4) CHR ''=''
         in case urlsafe_b64decode (utf8_encode (encoded_id @ padding)) of
              None \<Rightarrow> None
            | Some decoded \<Rightarrow>
                if list_all (\<lambda>c. (of_char c :: nat) < 128) decoded then py_int decoded
                else decode_int decoded))"

section \<open>Sample stores\<close>


text \<open>
  A store with two users, the first with a subscription that ended long ago and five
  active referrals; an outside world that counts the calls made to it, accepts every
  message, refuses every ban, and reports an invoice by its name.
\<close>

definition demo_db :: database where
  "demo_db =
     \<lparr>users =
        [\<lparr>u_user_id = 7, username = Some ''ann'', first_name = Some ''Ann'', last_name = None,
          registration_date = 0, balance = 0, is_admin = False\<rparr>,
         \<lparr>u_user_id = 8, username = None, first_name = Some ''Bob'', last_name = None,
          registration_date = 0, balance = 0, is_admin = False\<rparr>],
      subscriptions =
        [\<lparr>subscription_id = 1, s_user_id = 7, start_date = 0, end_date = 1000,
          s_status = Active\<rparr>],
      payments =
        [\<lparr>payment_id = 1, p_user_id = 8, p_amount = 1000, p_product_type = ''club'',
          payment_method = ''stars'', p_status = Confirmed, p_created_at = 0,
          confirmed_at = Some 5\<rparr>],
      crypto_payments =
        [\<lparr>cp_payment_id = 1, cp_user_id = 7, invoice_id = ''inv-paid'', asset = ''BTC'',
          cp_amount = ''0.000222'', cp_product_type = ''club'', cp_status = CPending,
          cp_created_at = 0, paid_at = None\<rparr>],
      referrals =
        [\<lparr>referral_id = 1, r_user_id = 11, referrer_id = 7, join_date = 0, is_active = True\<rparr>,
         \<lparr>referral_id = 2, r_user_id = 12, referrer_id = 7, join_date = 0, is_active = True\<rparr>,
         \<lparr>referral_id = 3, r_user_id = 13, referrer_id = 7, join_date = 0, is_active = True\<rparr>,
         \<lparr>referral_id = 4, r_user_id = 14, referrer_id = 7, join_date = 0, is_active = True\<rparr>,
         \<lparr>referral_id = 5, r_user_id = 15, referrer_id = 7, join_date = 0, is_active = True\<rparr>]\<rparr>"

definition demo_api :: "nat api" where
  "demo_api =
     \<lparr>clock_now = (\<lambda>n. (2000 + int n, Suc n)),
      clock_sql = (\<lambda>n. (5000000 + int n, Suc n)),
      bot_send_message = (\<lambda>to m n. (True, Suc n)),
      bot_ban_chat_member = (\<lambda>chat uid n. (False, Suc n)),
      crypto_check_invoice = (\<lambda>iid n.
        (if iid = ''inv-paid'' then Some (Some ''paid'')
         else if iid = ''inv-expired'' then Some (Some ''expired'')
         else if iid = ''inv-active'' then Some (Some ''active'')
         else None, Suc n))\<rparr>"

definition demo_cfg :: config where
  "demo_cfg =
     \<lparr>admin_ids = [1], group_id = - 100, club_price = 1000, vietnam_tour_price = 1000,
      consultation_price = 2000, points_per_referral = 1000, free_days = 7\<rparr>"

definition demo_world :: "nat world" where
  "demo_world = \<lparr>store = demo_db, ext = 0, trace = []\<rparr>"

section \<open>The payment lifecycle as a transition system\<close>




text \<open>The moves of a status that the two state machines allow, staying put included.\<close>

definition pay_move :: "pay_status \<Rightarrow> pay_status \<Rightarrow> bool" where
  "pay_move a b \<longleftrightarrow> a = b \<or> (a = Pending \<and> b = Confirmed)"

definition crypto_move :: "crypto_status \<Rightarrow> crypto_status \<Rightarrow> bool" where
  "crypto_move a b \<longleftrightarrow> a = b \<or> (a = CPending \<and> (b = CConfirmed \<or> b = CExpired))"






section \<open>Properties\<close>

subsection \<open>Subscriptions\<close>


lemma latest_active_None_iff:
  "latest_active subs u = None \<longleftrightarrow> (\<forall>r \<in> set subs. \<not> (s_user_id r = u \<and> s_status r = Active))"
  by (induction subs) (auto split: option.splits)


lemma set_end_date_wf: "subs_wf subs \<Longrightarrow> subs_wf (set_end_date sid e subs)"
proof -
  have 1: "map subscription_id (set_end_date sid e subs) = map subscription_id subs"
    by (simp add: set_end_date_def)
  have 2: "map s_user_id (filter (\<lambda>r. s_status r = Active) (set_end_date sid e subs))
     = map s_user_id (filter (\<lambda>r. s_status r = Active) subs)"
    by (induction subs) (auto simp: set_end_date_def)
  show "subs_wf subs \<Longrightarrow> subs_wf (set_end_date sid e subs)"
    unfolding subs_wf_def 1 2 .
qed








lemma subs_wf_empty: "subs_wf (subscriptions empty_db)"
  by (simp add: subs_wf_def empty_db_def)

lemma lastrowid_fresh_aux: "x \<in> set ids \<Longrightarrow> x \<le> fold max ids (a::int)"
proof (induction ids arbitrary: a)
  case Nil then show ?case by simp
next
  case (Cons y ys)
  have mono: "\<And>b. b \<le> fold max ys (b::int)"
  proof -
    fix b :: int show "b \<le> fold max ys b"
      by (induction ys arbitrary: b) (auto intro: order_trans [OF max.cobounded2])
  qed
  show ?case
  proof (cases "x = y")
    case True
    have "y \<le> max y a" by simp
    also have "\<dots> \<le> fold max ys (max y a)" by (rule mono)
    finally show ?thesis using True by simp
  next
    case False
    then show ?thesis using Cons by simp
  qed
qed

lemma lastrowid_fresh: "lastrowid ids \<notin> set ids"
proof
  assume "lastrowid ids \<in> set ids"
  then have "lastrowid ids \<le> fold max ids 0" by (rule lastrowid_fresh_aux)
  then show False by (simp add: lastrowid_def)
qed

lemma add_subscription_wf:
  assumes "subs_wf (subscriptions db)" "add_subscription db now1 now2 ts u d = Inr (sid, db')"
  shows "subs_wf (subscriptions db')"
proof (cases "latest_active (subscriptions db) u")
  case None
  then have na: "u \<notin> s_user_id ` set (filter (\<lambda>r. s_status r = Active) (subscriptions db))"
    by (auto simp: latest_active_None_iff)
  have "lastrowid (map subscription_id (subscriptions db)) \<notin> set (map subscription_id (subscriptions db))"
    by (rule lastrowid_fresh)
  then show ?thesis
    using assms None na
    by (auto simp: add_subscription_def subs_wf_def Let_def split: sum.splits)
next
  case (Some s)
  then show ?thesis
    using assms set_end_date_wf [OF assms(1)]
    by (auto simp: add_subscription_def split: sum.splits if_splits)
qed

lemma deactivate_subscription_wf:
  assumes "subs_wf (subscriptions db)"
  shows "subs_wf (subscriptions (deactivate_subscription db sid))"
proof -
  let ?f = "\<lambda>r. if subscription_id r = sid then r\<lparr>s_status := Expired\<rparr> else r"
  have 1: "map subscription_id (map ?f subs) = map subscription_id subs" for subs :: "subscription list"
    by (induction subs) auto
  have 2: "distinct (map s_user_id (filter (\<lambda>r. s_status r = Active) subs)) \<Longrightarrow>
      distinct (map s_user_id (filter (\<lambda>r. s_status r = Active) (map ?f subs)))" for subs :: "subscription list"
  proof (induction subs)
    case Nil then show ?case by simp
  next
    case (Cons a subs)
    have sub: "set (filter (\<lambda>r. s_status r = Active) (map ?f subs)) \<subseteq>
       set (filter (\<lambda>r. s_status r = Active) subs)"
      by auto
    show ?case using Cons sub by (auto split: if_splits)
  qed
  have "distinct (map subscription_id (map ?f (subscriptions db)))"
    using assms unfolding 1 by (simp add: subs_wf_def)
  moreover have "distinct (map s_user_id (filter (\<lambda>r. s_status r = Active) (map ?f (subscriptions db))))"
    using assms by (intro 2) (simp add: subs_wf_def)
  ultimately show ?thesis
    unfolding subs_wf_def deactivate_subscription_def by simp
qed



subsection \<open>Milestone bonuses\<close>

lemma send_store [simp]: "store (snd (send api w to m)) = store w"
  by (simp add: send_def split: prod.splits)

lemma send_trace: "\<exists>ok. trace (snd (send api w to m)) = trace w @ [Send to m ok]"
  by (simp add: send_def split: prod.splits)

lemma notify_store: "notify api w to m = (out, w') \<Longrightarrow> store w' = store w"
  by (auto simp: notify_def send_def split: prod.splits)




subsection \<open>Expiry sweep\<close>

lemma expire_subscription_store:
  "store (expire_subscription api cfg sub w) = deactivate_subscription (store w) (subscription_id sub)"
  by (simp add: expire_subscription_def kick_user_from_group_def Let_def split: prod.splits)

lemma expire_subscription_trace:
  "\<exists>ok1 ok2. trace (expire_subscription api cfg sub w) =
     trace w @ [Ban (group_id cfg) (s_user_id sub) ok1, Send (s_user_id sub) (SubscriptionEndText 0) ok2] \<and>
     ((\<forall>to m x. fst (bot_send_message api to m x)) \<longrightarrow> ok2)"
proof -
  obtain ok1 e1 where b: "bot_ban_chat_member api (group_id cfg) (s_user_id sub) (ext w) = (ok1, e1)"
    by (cases "bot_ban_chat_member api (group_id cfg) (s_user_id sub) (ext w)")
  obtain ok2 e2 where s: "bot_send_message api (s_user_id sub) (SubscriptionEndText 0) e1 = (ok2, e2)"
    by (cases "bot_send_message api (s_user_id sub) (SubscriptionEndText 0) e1")
  have "trace (expire_subscription api cfg sub w) =
     trace w @ [Ban (group_id cfg) (s_user_id sub) ok1, Send (s_user_id sub) (SubscriptionEndText 0) ok2]"
    using b s by (simp add: expire_subscription_def kick_user_from_group_def send_def Let_def)
  moreover have "(\<forall>to m x. fst (bot_send_message api to m x)) \<longrightarrow> ok2"
  proof
    assume a: "\<forall>to m x. fst (bot_send_message api to m x)"
    have "fst (bot_send_message api (s_user_id sub) (SubscriptionEndText 0) e1)"
      by (rule a [rule_format])
    then show ok2 using s by simp
  qed
  ultimately show ?thesis by (intro exI conjI)
qed

lemma deactivate_rowE:
  assumes "r \<in> set (subscriptions (deactivate_subscription db sid))"
  obtains x where "x \<in> set (subscriptions db)"
    and "r = (if subscription_id x = sid then x\<lparr>s_status := Expired\<rparr> else x)"
proof -
  let ?f = "\<lambda>r::subscription. if subscription_id r = sid then r\<lparr>s_status := Expired\<rparr> else r"
  have "subscriptions (deactivate_subscription db sid) = map ?f (subscriptions db)"
    unfolding deactivate_subscription_def by simp
  with assms have "r \<in> ?f ` set (subscriptions db)" by (simp only: set_map)
  then obtain x where "r = ?f x" "x \<in> set (subscriptions db)" by (rule imageE)
  then show ?thesis using that by blast
qed

lemma deactivate_sets: "expired_row (deactivate_subscription db sid) sid"
  unfolding expired_row_def
proof (intro ballI impI)
  fix r assume r: "r \<in> set (subscriptions (deactivate_subscription db sid))"
    and i: "subscription_id r = sid"
  from r obtain x where x: "r = (if subscription_id x = sid then x\<lparr>s_status := Expired\<rparr> else x)"
    by (rule deactivate_rowE)
  show "s_status r = Expired"
  proof (cases "subscription_id x = sid")
    case True
    then show ?thesis using x by simp
  next
    case False
    then show ?thesis using x i by simp
  qed
qed

lemma deactivate_keeps:
  assumes "expired_row db sid"
  shows "expired_row (deactivate_subscription db sid') sid"
  unfolding expired_row_def
proof (intro ballI impI)
  fix r assume r: "r \<in> set (subscriptions (deactivate_subscription db sid'))"
    and i: "subscription_id r = sid"
  from r obtain x where m: "x \<in> set (subscriptions db)"
    and x: "r = (if subscription_id x = sid' then x\<lparr>s_status := Expired\<rparr> else x)"
    by (rule deactivate_rowE)
  show "s_status r = Expired"
  proof (cases "subscription_id x = sid'")
    case True
    then show ?thesis using x by simp
  next
    case False
    then have "r = x" using x by simp
    then show ?thesis using assms m i unfolding expired_row_def by blast
  qed
qed


lemma deactivate_ids_aux:
  "map subscription_id (map (\<lambda>r. if subscription_id r = sid then r\<lparr>s_status := Expired\<rparr> else r) xs) =
   map subscription_id (xs :: subscription list)"
  by (induction xs) auto

lemma deactivate_ids:
  "map subscription_id (subscriptions (deactivate_subscription db sid)) = map subscription_id (subscriptions db)"
  unfolding deactivate_subscription_def using deactivate_ids_aux by simp

lemma sweep_keeps:
  "expired_row (store w) sid \<Longrightarrow> expired_row (store (fold (expire_subscription api cfg) subs w)) sid"
  by (induction subs arbitrary: w) (simp_all add: expire_subscription_store deactivate_keeps)

lemma sweep_sets:
  "sub \<in> set subs \<Longrightarrow>
   expired_row (store (fold (expire_subscription api cfg) subs w)) (subscription_id sub)"
proof (induction subs arbitrary: w)
  case Nil
  then show ?case by simp
next
  case (Cons a subs)
  show ?case
  proof (cases "a = sub")
    case True
    have "expired_row (store (expire_subscription api cfg a w)) (subscription_id sub)"
      using True by (simp add: expire_subscription_store deactivate_sets)
    then show ?thesis by (simp add: sweep_keeps)
  next
    case False
    then show ?thesis using Cons by simp
  qed
qed

lemma sweep_ids:
  "map subscription_id (subscriptions (store (fold (expire_subscription api cfg) subs w))) =
   map subscription_id (subscriptions (store w))"
  by (induction subs arbitrary: w) (simp_all add: expire_subscription_store deactivate_ids)


lemma sweep_trace_grows:
  "\<exists>post. trace (fold (expire_subscription api cfg) subs w) = trace w @ post"
proof (induction subs arbitrary: w)
  case Nil
  then show ?case by simp
next
  case (Cons a subs)
  obtain ok1 ok2 where "trace (expire_subscription api cfg a w) =
     trace w @ [Ban (group_id cfg) (s_user_id a) ok1, Send (s_user_id a) (SubscriptionEndText 0) ok2]"
    using expire_subscription_trace by blast
  moreover obtain post where
    "trace (fold (expire_subscription api cfg) subs (expire_subscription api cfg a w)) =
     trace (expire_subscription api cfg a w) @ post"
    using Cons by blast
  ultimately show ?case by simp
qed

lemma sweep_trace:
  "sub \<in> set subs \<Longrightarrow>
   \<exists>pre post ok1 ok2. trace (fold (expire_subscription api cfg) subs w) =
      trace w @ pre @ [Ban (group_id cfg) (s_user_id sub) ok1,
                       Send (s_user_id sub) (SubscriptionEndText 0) ok2] @ post \<and>
      ((\<forall>to m x. fst (bot_send_message api to m x)) \<longrightarrow> ok2)"
proof (induction subs arbitrary: w)
  case Nil
  then show ?case by simp
next
  case (Cons a subs)
  obtain k1 k2 where a: "trace (expire_subscription api cfg a w) =
     trace w @ [Ban (group_id cfg) (s_user_id a) k1, Send (s_user_id a) (SubscriptionEndText 0) k2]"
     and k2: "(\<forall>to m x. fst (bot_send_message api to m x)) \<longrightarrow> k2"
    using expire_subscription_trace by blast
  show ?case
  proof (cases "a = sub")
    case True
    obtain post where
      "trace (fold (expire_subscription api cfg) subs (expire_subscription api cfg a w)) =
       trace (expire_subscription api cfg a w) @ post"
      using sweep_trace_grows by blast
    then have "trace (fold (expire_subscription api cfg) (a # subs) w) =
       trace w @ [] @ [Ban (group_id cfg) (s_user_id sub) k1,
                       Send (s_user_id sub) (SubscriptionEndText 0) k2] @ post"
      using a True by simp
    then show ?thesis using k2 by blast
  next
    case False
    then have "sub \<in> set subs" using Cons.prems by simp
    from Cons.IH [OF this, of "expire_subscription api cfg a w"]
    obtain pre post ok1 ok2 where
      t: "trace (fold (expire_subscription api cfg) subs (expire_subscription api cfg a w)) =
       trace (expire_subscription api cfg a w) @ pre @
        [Ban (group_id cfg) (s_user_id sub) ok1, Send (s_user_id sub) (SubscriptionEndText 0) ok2] @ post"
      and ok2: "(\<forall>to m x. fst (bot_send_message api to m x)) \<longrightarrow> ok2"
      by blast
    have "trace (fold (expire_subscription api cfg) (a # subs) w) =
       trace w @ ([Ban (group_id cfg) (s_user_id a) k1, Send (s_user_id a) (SubscriptionEndText 0) k2] @ pre) @
        [Ban (group_id cfg) (s_user_id sub) ok1, Send (s_user_id sub) (SubscriptionEndText 0) ok2] @ post"
      using t a by simp
    then show ?thesis using ok2 by blast
  qed
qed

lemma get_expired_subset:
  "sub \<in> set (get_expired_subscriptions db t) \<Longrightarrow>
   sub \<in> set (subscriptions db) \<and> s_status sub = Active \<and> end_date sub div 1000000 < t div 1000000"
  by (auto simp: get_expired_subscriptions_def)

text \<open>
  Claim C8. Let \<open>sub\<close> be any row the expiry sweep selects (active, end date before the
  store's clock). Whatever the platform answers to any ban and to any message of the
  sweep, for this row or another, after the sweep the row exists and is expired, and the
  sweep has tried to remove its user from the group and then sent the end-of-access
  notice to its user. The notice is delivered whenever the platform accepts messages.
  A ban that raises is the outcome \<open>False\<close> of \<open>bot_ban_chat_member\<close>, on which nothing
  in the statement depends.
\<close>

theorem expiry_sweep_isolated:
  assumes clk: "clock_sql api (ext w) = (t, e)"
    and due: "sub \<in> set (get_expired_subscriptions (store w) t)"
    and run: "w' = check_expired_subscriptions api cfg w"
  shows "(\<exists>r \<in> set (subscriptions (store w')). subscription_id r = subscription_id sub) \<and>
         (\<forall>r \<in> set (subscriptions (store w')).
             subscription_id r = subscription_id sub \<longrightarrow> s_status r = Expired) \<and>
         (\<exists>pre post ok1 ok2.
             trace w' = trace w @ pre @
               [Ban (group_id cfg) (s_user_id sub) ok1,
                Send (s_user_id sub) (SubscriptionEndText 0) ok2] @ post \<and>
             ((\<forall>to m x. fst (bot_send_message api to m x)) \<longrightarrow> ok2))"
proof -
  let ?w0 = "w\<lparr>ext := e\<rparr>"
  let ?subs = "get_expired_subscriptions (store w) t"
  have w': "w' = fold (expire_subscription api cfg) ?subs ?w0"
    using clk run by (simp add: check_expired_subscriptions_def)
  have "subscription_id sub \<in> set (map subscription_id (subscriptions (store ?w0)))"
    using get_expired_subset [OF due] by simp
  then have "subscription_id sub \<in> set (map subscription_id (subscriptions (store w')))"
    unfolding w' sweep_ids .
  then have 1: "\<exists>r \<in> set (subscriptions (store w')). subscription_id r = subscription_id sub"
    by auto
  have 2: "\<forall>r \<in> set (subscriptions (store w')).
             subscription_id r = subscription_id sub \<longrightarrow> s_status r = Expired"
    using sweep_sets [OF due, of api cfg ?w0] unfolding w' expired_row_def .
  have 3: "\<exists>pre post ok1 ok2.
             trace w' = trace w @ pre @
               [Ban (group_id cfg) (s_user_id sub) ok1,
                Send (s_user_id sub) (SubscriptionEndText 0) ok2] @ post \<and>
             ((\<forall>to m x. fst (bot_send_message api to m x)) \<longrightarrow> ok2)"
    using sweep_trace [OF due, of api cfg ?w0] unfolding w' by simp
  show ?thesis by (intro conjI) (rule 1, rule 2, rule 3)
qed

theorem expiry_sweep_isolated_witness:
  "subscriptions (store (check_expired_subscriptions demo_api demo_cfg demo_world)) =
     [\<lparr>subscription_id = 1, s_user_id = 7, start_date = 0, end_date = 1000, s_status = Expired\<rparr>] \<and>
   trace (check_expired_subscriptions demo_api demo_cfg demo_world) =
     [Ban (- 100) 7 False, Send 7 (SubscriptionEndText 0) True]"
proof -
  let ?sub = "\<lparr>subscription_id = 1, s_user_id = 7, start_date = 0, end_date = 1000, s_status = Active\<rparr>"
  have clk: "clock_sql demo_api (ext demo_world) = (5000000, Suc 0)"
    by (simp add: demo_api_def demo_world_def)
  have due: "?sub \<in> set (get_expired_subscriptions (store demo_world) 5000000)"
    by (simp add: get_expired_subscriptions_def demo_world_def demo_db_def)
  have ev: "check_expired_subscriptions demo_api demo_cfg demo_world =
     \<lparr>store = demo_db\<lparr>subscriptions :=
         [\<lparr>subscription_id = 1, s_user_id = 7, start_date = 0, end_date = 1000, s_status = Expired\<rparr>]\<rparr>,
      ext = 3, trace = [Ban (- 100) 7 False, Send 7 (SubscriptionEndText 0) True]\<rparr>"
    by (simp add: check_expired_subscriptions_def get_expired_subscriptions_def
          expire_subscription_def kick_user_from_group_def send_def deactivate_subscription_def
          demo_api_def demo_cfg_def demo_world_def demo_db_def Let_def)
  show ?thesis
    using expiry_sweep_isolated [OF clk due refl, of demo_cfg] unfolding ev by simp
qed

subsection \<open>Crypto poll\<close>

lemma notify_admin_store [simp]: "store (notify_admin api p a w) = store w"
  by (simp add: notify_admin_def split: option.splits)

lemma notify_admins_store [simp]: "store (fold (notify_admin api p) admins w) = store w"
  by (induction admins arbitrary: w) simp_all






lemma check_payment_paid_club:
  assumes inv: "crypto_check_invoice api (invoice_id p) (ext w) = (Some (Some ''paid''), e)"
    and clk: "clock_now api e = (t, e1)"
    and clks: "read_clocks api e1 = ((now1, now2, ts), e2)"
    and club: "cp_product_type p = ''club''"
  shows "store (check_payment api cfg p w) =
     (case add_subscription (confirm_crypto_payment (store w) t (invoice_id p)) now1 now2 ts
             (cp_user_id p) 30 of
        Inr (sid, db') \<Rightarrow> db'
      | Inl err \<Rightarrow> confirm_crypto_payment (store w) t (invoice_id p))"
  using inv clk clks club
  by (simp add: check_payment_def db_add_subscription_def get_payment_description_def Let_def
        split: sum.splits prod.splits)

lemma check_payment_paid_other:
  assumes inv: "crypto_check_invoice api (invoice_id p) (ext w) = (Some (Some ''paid''), e)"
    and clk: "clock_now api e = (t, e1)"
    and club: "cp_product_type p \<noteq> ''club''"
  shows "store (check_payment api cfg p w) = confirm_crypto_payment (store w) t (invoice_id p)"
  using inv clk club by (simp add: check_payment_def Let_def)

lemma check_payment_expired:
  assumes inv: "crypto_check_invoice api (invoice_id p) (ext w) = (Some (Some ''expired''), e)"
  shows "store (check_payment api cfg p w) = mark_crypto_payment_expired (store w) (invoice_id p)"
  using inv by (simp add: check_payment_def Let_def)

lemma check_payment_other:
  assumes inv: "crypto_check_invoice api (invoice_id p) (ext w) = (st, e)"
    and "st \<noteq> Some (Some ''paid'')" "st \<noteq> Some (Some ''expired'')"
  shows "store (check_payment api cfg p w) = store w"
  using assms by (cases st) (simp_all add: check_payment_def Let_def)




subsection \<open>Confirmation of manual and platform payments\<close>

lemma cmd_confirm_payment_guard:
  assumes "get_payment (store w) pid = Some p" "p_status p = Confirmed"
  shows "store (snd (cmd_confirm_payment api cfg w from_id pid)) = store w"
proof (cases "from_id \<in> set (admin_ids cfg)")
  case True
  obtain out w' where n: "notify api w from_id (AlreadyConfirmed pid) = (out, w')"
    by (cases "notify api w from_id (AlreadyConfirmed pid)")
  have "cmd_confirm_payment api cfg w from_id pid = (out, w')"
    using assms True n by (simp add: cmd_confirm_payment_def)
  then show ?thesis using notify_store [OF n] by simp
next
  case False
  obtain out w' where n: "notify api w from_id NoRights = (out, w')"
    by (cases "notify api w from_id NoRights")
  have "cmd_confirm_payment api cfg w from_id pid = (out, w')"
    using False n by (simp add: cmd_confirm_payment_def)
  then show ?thesis using notify_store [OF n] by simp
qed

lemma club_cmd_confirm_payment_guard:
  assumes "get_payment (store w) pid = Some p" "p_status p = Confirmed"
  shows "store (snd (club_cmd_confirm_payment api cfg w from_id pid)) = store w"
proof (cases "from_id \<in> set (admin_ids cfg)")
  case True
  obtain out w' where n: "notify api w from_id (AlreadyConfirmed pid) = (out, w')"
    by (cases "notify api w from_id (AlreadyConfirmed pid)")
  have "club_cmd_confirm_payment api cfg w from_id pid = (out, w')"
    using assms True n by (simp add: club_cmd_confirm_payment_def)
  then show ?thesis using notify_store [OF n] by simp
next
  case False
  obtain out w' where n: "notify api w from_id NoRights = (out, w')"
    by (cases "notify api w from_id NoRights")
  have "club_cmd_confirm_payment api cfg w from_id pid = (out, w')"
    using False n by (simp add: club_cmd_confirm_payment_def)
  then show ?thesis using notify_store [OF n] by simp
qed

text \<open>
  Claim C4 at a concrete input. Payment 1 of the sample store is already confirmed, at
  time 5, and the admin command leaves such a payment alone (the two lemmas above). The
  platform-payment callback for the same payment does not read the status: it stamps
  \<open>confirmed_at\<close> again and runs the fulfilment again, here creating a 30-day
  subscription for the customer.
\<close>

theorem stars_callback_confirms_again:
  "map p_status (payments (store demo_world)) = [Confirmed] \<and>
   map confirmed_at (payments (store demo_world)) = [Some 5] \<and>
   map confirmed_at (payments (store (snd (successful_payment_handler demo_api demo_cfg demo_world 8 1))))
     = [Some 2000] \<and>
   subscriptions (store (snd (successful_payment_handler demo_api demo_cfg demo_world 8 1))) =
     subscriptions (store demo_world) @
       [\<lparr>subscription_id = 2, s_user_id = 8, start_date = 5000003,
         end_date = 2001 + 30 * us_per_day, s_status = Active\<rparr>]"
  by (simp add: successful_payment_handler_def get_payment_def confirm_payment_def
        db_add_subscription_def read_clocks_def add_subscription_def add_days_def
        get_payment_description_def lastrowid_def notify_def send_def
        us_per_day_def max_datetime_def demo_api_def demo_cfg_def demo_world_def demo_db_def Let_def)

subsection \<open>Status transitions\<close>





lemma add_subscription_tables:
  "add_subscription db now1 now2 ts uid days = Inr (sid, db') \<Longrightarrow>
   payments db' = payments db \<and> crypto_payments db' = crypto_payments db"
  by (auto simp: add_subscription_def Let_def split: sum.splits option.splits if_splits)



lemma notify_snd_store [simp]: "store (snd (notify api w to m)) = store w"
  by (simp add: notify_def send_def split: prod.splits)

lemma confirm_payment_crypto [simp]:
  "crypto_payments (confirm_payment db t pid) = crypto_payments db"
  by (simp add: confirm_payment_def)

lemma fold_send_store [simp]:
  "store (fold (\<lambda>a w'. snd (send api w' a (g a))) admins w) = store w"
  by (induction admins arbitrary: w) simp_all




lemma pay_move_refl [simp]: "pay_move a a"
  by (simp add: pay_move_def)

lemma pay_move_Confirmed [simp]: "pay_move a Confirmed"
  by (cases a) (simp_all add: pay_move_def)


lemma crypto_move_refl [simp]: "crypto_move a a"
  by (simp add: crypto_move_def)











lemma check_payment_store_cases:
  "store (check_payment api cfg p w) = store w \<or>
   (\<exists>t. store (check_payment api cfg p w) = confirm_crypto_payment (store w) t (invoice_id p)) \<or>
   (\<exists>t now1 now2 ts sid.
      add_subscription (confirm_crypto_payment (store w) t (invoice_id p)) now1 now2 ts
        (cp_user_id p) 30 = Inr (sid, store (check_payment api cfg p w))) \<or>
   store (check_payment api cfg p w) = mark_crypto_payment_expired (store w) (invoice_id p)"
proof -
  obtain st e where inv: "crypto_check_invoice api (invoice_id p) (ext w) = (st, e)"
    by (cases "crypto_check_invoice api (invoice_id p) (ext w)")
  obtain t e1 where clk: "clock_now api e = (t, e1)" by (cases "clock_now api e")
  obtain now1 now2 ts e2 where clks: "read_clocks api e1 = ((now1, now2, ts), e2)"
    by (cases "read_clocks api e1") auto
  consider (paid) "st = Some (Some ''paid'')" | (expired) "st = Some (Some ''expired'')"
    | (other) "st \<noteq> Some (Some ''paid'')" "st \<noteq> Some (Some ''expired'')"
    by blast
  then show ?thesis
  proof cases
    case paid
    show ?thesis
    proof (cases "cp_product_type p = ''club''")
      case True
      note s = check_payment_paid_club [OF inv [unfolded paid] clk clks True, of cfg]
      show ?thesis
      proof (cases "add_subscription (confirm_crypto_payment (store w) t (invoice_id p))
                      now1 now2 ts (cp_user_id p) 30")
        case (Inl err)
        then have "store (check_payment api cfg p w) =
            confirm_crypto_payment (store w) t (invoice_id p)"
          using s by simp
        then show ?thesis by blast
      next
        case (Inr r)
        obtain sid db' where r: "r = (sid, db')" by (cases r)
        have "store (check_payment api cfg p w) = db'" using s Inr r by simp
        then have "add_subscription (confirm_crypto_payment (store w) t (invoice_id p))
                      now1 now2 ts (cp_user_id p) 30 = Inr (sid, store (check_payment api cfg p w))"
          using Inr r by simp
        then show ?thesis by blast
      qed
    next
      case False
      have "store (check_payment api cfg p w) = confirm_crypto_payment (store w) t (invoice_id p)"
        by (rule check_payment_paid_other [OF inv [unfolded paid] clk False])
      then show ?thesis by blast
    qed
  next
    case expired
    have "store (check_payment api cfg p w) = mark_crypto_payment_expired (store w) (invoice_id p)"
      by (rule check_payment_expired [OF inv [unfolded expired]])
    then show ?thesis by blast
  next
    case other
    have "store (check_payment api cfg p w) = store w"
      by (rule check_payment_other [OF inv other])
    then show ?thesis by blast
  qed
qed

lemma confirm_crypto_payment_payments [simp]:
  "payments (confirm_crypto_payment db t iid) = payments db"
  by (simp add: confirm_crypto_payment_def)

lemma mark_crypto_payment_expired_payments [simp]:
  "payments (mark_crypto_payment_expired db iid) = payments db"
  by (simp add: mark_crypto_payment_expired_def)

lemma check_payment_payments [simp]:
  "payments (store (check_payment api cfg p w)) = payments (store w)"
  using check_payment_store_cases [of api cfg p w]
  by (auto dest!: add_subscription_tables)















end
